theory Spec2Isabelle
  imports Main "HOL-Library.Word"
begin

unbundle bit_operations_syntax

section \<open>Values shared by the models\<close>

text \<open>
  A Go \<open>string\<close> and a Go \<open>[]byte\<close> are both sequences of bytes, and the conversions
  \<open>string(b)\<close> and \<open>[]byte(s)\<close> keep the bytes as they are. Both are modelled by
  \<^typ>\<open>string\<close>, whose characters are bytes.
\<close>

type_synonym u8 = "8 word"
type_synonym u32 = "32 word"

section \<open>The asset bundle generator (generate.go)\<close>

subsection \<open>crypto/sha256: Sum256, after FIPS 180-4\<close>

definition rotr :: "nat \<Rightarrow> u32 \<Rightarrow> u32" where
  "rotr n x = drop_bit n x OR push_bit (32 - n) x"

definition Ch :: "u32 \<Rightarrow> u32 \<Rightarrow> u32 \<Rightarrow> u32" where
  "Ch x y z = (x AND y) XOR (NOT x AND z)"

definition Maj :: "u32 \<Rightarrow> u32 \<Rightarrow> u32 \<Rightarrow> u32" where
  "Maj x y z = (x AND y) XOR (x AND z) XOR (y AND z)"

definition bsig0 :: "u32 \<Rightarrow> u32" where
  "bsig0 x = rotr 2 x XOR rotr 13 x XOR rotr 22 x"

definition bsig1 :: "u32 \<Rightarrow> u32" where
  "bsig1 x = rotr 6 x XOR rotr 11 x XOR rotr 25 x"

definition ssig0 :: "u32 \<Rightarrow> u32" where
  "ssig0 x = rotr 7 x XOR rotr 18 x XOR drop_bit 3 x"

definition ssig1 :: "u32 \<Rightarrow> u32" where
  "ssig1 x = rotr 17 x XOR rotr 19 x XOR drop_bit 10 x"

definition K256 :: "u32 list" where
  \<comment> \<open>the round constants: the first 32 bits of the fractional parts of the cube roots
      of the first 64 primes, in decimal\<close>
  "K256 =
    [1116352408, 1899447441, 3049323471, 3921009573, 961987163, 1508970993,
     2453635748, 2870763221, 3624381080, 310598401, 607225278, 1426881987,
     1925078388, 2162078206, 2614888103, 3248222580, 3835390401, 4022224774,
     264347078, 604807628, 770255983, 1249150122, 1555081692, 1996064986,
     2554220882, 2821834349, 2952996808, 3210313671, 3336571891, 3584528711,
     113926993, 338241895, 666307205, 773529912, 1294757372, 1396182291,
     1695183700, 1986661051, 2177026350, 2456956037, 2730485921, 2820302411,
     3259730800, 3345764771, 3516065817, 3600352804, 4094571909, 275423344,
     430227734, 506948616, 659060556, 883997877, 958139571, 1322822218,
     1537002063, 1747873779, 1955562222, 2024104815, 2227730452, 2361852424,
     2428436474, 2756734187, 3204031479, 3329325298]"

definition H256 :: "u32 list" where
  \<comment> \<open>the initial hash value: likewise from the square roots of the first 8 primes\<close>
  "H256 =
    [1779033703, 3144134277, 1013904242, 2773480762,
     1359893119, 2600822924, 528734635, 1541459225]"

definition be_bytes :: "nat \<Rightarrow> 'a::len word \<Rightarrow> u8 list" where
  \<comment> \<open>the \<open>k\<close> low bytes of a word, most significant first\<close>
  "be_bytes k w = map (\<lambda>i. ucast (drop_bit (8 * (k - 1 - i)) w)) [0..<k]"

definition be_word :: "u8 list \<Rightarrow> u32" where
  "be_word bs = foldl (\<lambda>w b. push_bit 8 w OR ucast b) 0 bs"

definition padding :: "u8 list \<Rightarrow> u8 list" where
  \<comment> \<open>a 1 bit, zeros up to 56 modulo 64 bytes, then the length in bits as a uint64\<close>
  "padding msg =
     msg @ [0x80] @ replicate ((119 - length msg mod 64) mod 64) 0
       @ be_bytes 8 (of_nat (8 * length msg) :: 64 word)"

fun chunks :: "nat \<Rightarrow> 'a list \<Rightarrow> 'a list list" where
  "chunks n [] = []"
| "chunks n (x # xs) =
     (if n = 0 then [] else take n (x # xs) # chunks n (drop n (x # xs)))"

definition schedule :: "u8 list \<Rightarrow> u32 list" where
  "schedule block =
     fold (\<lambda>t w. w @ [ssig1 (w ! (t - 2)) + w ! (t - 7) + ssig0 (w ! (t - 15)) + w ! (t - 16)])
       [16..<64] (map be_word (chunks 4 block))"

definition round256 :: "u32 \<times> u32 \<Rightarrow> u32 list \<Rightarrow> u32 list" where
  "round256 kw s =
     (let a = s ! 0; b = s ! 1; c = s ! 2; d = s ! 3; e = s ! 4; f = s ! 5; g = s ! 6; h = s ! 7;
          t1 = h + bsig1 e + Ch e f g + fst kw + snd kw;
          t2 = bsig0 a + Maj a b c
      in [t1 + t2, a, b, c, d + t1, e, f, g])"

definition block256 :: "u32 list \<Rightarrow> u8 list \<Rightarrow> u32 list" where
  "block256 hs block = map2 (+) hs (fold round256 (zip K256 (schedule block)) hs)"

definition Sum256 :: "string \<Rightarrow> u8 list" where
  "Sum256 data =
     concat (map (be_bytes 4) (foldl block256 H256 (chunks 64 (padding (map of_char data)))))"

subsection \<open>fmt.Sprintf("%x", ...) on a byte array\<close>

definition hexdigit :: "nat \<Rightarrow> char" where
  "hexdigit n = ''0123456789abcdef'' ! n"

definition hex :: "u8 list \<Rightarrow> string" where
  "hex bs = concat (map (\<lambda>b. [hexdigit (unat b div 16), hexdigit (unat b mod 16)]) bs)"

subsection \<open>encoding/base64: StdEncoding.EncodeToString, after RFC 4648\<close>




subsection \<open>The generator\<close>

datatype error = ReadFileError string | MinifyError string | CreateError string


record Bundle =
  Package :: string
  Map :: string
  ImportPath :: string
  Files :: "string \<rightharpoonup> string"
  Checksums :: "string \<rightharpoonup> string"




definition checksum :: "string \<Rightarrow> string" where
  "checksum data = hex (Sum256 data)"

















section \<open>The feed and OPML parsers (reader/rss/parser.go, reader/opml/parser.go)\<close>

subsection \<open>What Parse is given\<close>

text \<open>
  \<open>encoding/xml\<close>'s \<open>Decoder\<close>, as far as \<open>Parse\<close> sets it up: the bytes of the reader,
  the \<open>Strict\<close> flag that \<open>xml.NewDecoder\<close> turns on, the table for entities the document
  does not declare and the hook that converts a declared charset. Error values have the
  type \<open>'e\<close>.
\<close>

record 'e Decoder =
  input :: string
  Strict :: bool
  Entity :: "string \<rightharpoonup> string"
  CharsetReader :: "(string \<Rightarrow> string \<Rightarrow> 'e + string) option"

definition NewDecoder :: "string \<Rightarrow> 'e Decoder" where
  "NewDecoder r = \<lparr>input = r, Strict = True, Entity = Map.empty, CharsetReader = None\<rparr>"

text \<open>
  Modelled from the spec: \<open>errors.LocalizedError\<close>; the package \<open>miniflux.app/errors\<close>
  is not among the sources. The spec: ``a format string key plus a wrapped underlying
  cause; never discards the original error''.
\<close>

record 'e LocalizedError =
  message :: string
  cause :: 'e

text \<open>
  Modelled from the spec: \<open>errors.NewLocalizedError\<close>, of the same package. It keeps the
  key and the cause it is given, and returns a pointer to a fresh value, which is never
  nil.
\<close>

definition NewLocalizedError :: "string \<Rightarrow> 'e \<Rightarrow> 'e LocalizedError option" where
  "NewLocalizedError msg err = Some \<lparr>message = msg, cause = err\<rparr>"

subsection \<open>rss.Parse and opml.Parse\<close>

text \<open>
  \<open>Decode\<close> stands for \<open>decoder.Decode\<close> of the standard library, filling the value that
  \<open>new\<close> allocated or returning an error; \<open>HTMLEntity\<close> for the table \<open>xml.HTMLEntity\<close>;
  \<open>encoding_CharsetReader\<close> for \<open>encoding.CharsetReader\<close>; \<open>Transform\<close> for the method
  of the decoded value. None of them is among the sources. Pointers that may be nil are options, and the
  nil slice is the empty list.
\<close>

definition rss_Parse ::
  "('e Decoder \<Rightarrow> 'e + 'raw) \<Rightarrow> (string \<rightharpoonup> string) \<Rightarrow> (string \<Rightarrow> string \<Rightarrow> 'e + string)
     \<Rightarrow> ('raw \<Rightarrow> 'feed option) \<Rightarrow> string \<Rightarrow> 'feed option \<times> 'e LocalizedError option" where
  "rss_Parse Decode HTMLEntity encoding_CharsetReader Transform data =
     (let decoder = NewDecoder data;
          decoder = decoder\<lparr>Entity := HTMLEntity\<rparr>;
          decoder = decoder\<lparr>CharsetReader := Some encoding_CharsetReader\<rparr>
      in case Decode decoder of
           Inl err \<Rightarrow> (None, NewLocalizedError ''Unable to parse RSS feed: %q'' err)
         | Inr feed \<Rightarrow> (Transform feed, None))"

definition opml_Parse ::
  "('e Decoder \<Rightarrow> 'e + 'raw) \<Rightarrow> (string \<rightharpoonup> string) \<Rightarrow> (string \<Rightarrow> string \<Rightarrow> 'e + string)
     \<Rightarrow> ('raw \<Rightarrow> 'sub list) \<Rightarrow> string \<Rightarrow> 'sub list \<times> 'e LocalizedError option" where
  "opml_Parse Decode HTMLEntity encoding_CharsetReader Transform data =
     (let decoder = NewDecoder data;
          decoder = decoder\<lparr>Entity := HTMLEntity\<rparr>;
          decoder = decoder\<lparr>CharsetReader := Some encoding_CharsetReader\<rparr>
      in case Decode decoder of
           Inl err \<Rightarrow> ([], NewLocalizedError ''Unable to parse OPML file: %q'' err)
         | Inr feeds \<Rightarrow> (Transform feeds, None))"

subsection \<open>The RSS normalizer\<close>

text \<open>
  Modelled from the spec: the method \<open>Transform\<close> of the decoded RSS value; the file of
  package \<open>rss\<close> that declares \<open>rssFeed\<close> and its method is not among the sources. The
  spec (4.5): it converts a Raw Structural Tree into a CanonicalFeed, and ``Transform never
  fails for missing-but-optional fields; it only signals failure when the Raw Structural
  Tree itself is nil/absent''. The receiver and the result are pointers; how the fields
  of a tree become the fields of a feed is the parameter \<open>convert\<close>.
\<close>

definition rss_Transform :: "('raw \<Rightarrow> 'feed) \<Rightarrow> 'raw option \<Rightarrow> 'feed option" where
  "rss_Transform convert tree =
     (case tree of None \<Rightarrow> None | Some raw \<Rightarrow> Some (convert raw))"

subsection \<open>The OPML flattener\<close>










section \<open>Sample inputs\<close>








definition sample_Decode :: "string Decoder \<Rightarrow> string + string" where
  \<comment> \<open>a decoder that fails on the empty input and hands every other input on\<close>
  "sample_Decode d = (if input d = [] then Inl ''EOF'' else Inr (input d))"

definition sample_opml_Decode :: "string Decoder \<Rightarrow> string + string list" where
  \<comment> \<open>likewise, for a decoded value that is a list\<close>
  "sample_opml_Decode d = (if input d = [] then Inl ''EOF'' else Inr [input d])"

definition sample_entities :: "string \<rightharpoonup> string" where
  "sample_entities = [''nbsp'' \<mapsto> [CHR 0xC2, CHR 0xA0]]"

definition sample_reader :: "string \<Rightarrow> string \<Rightarrow> string + string" where
  "sample_reader label src = Inr src"







definition sample_normalize :: "string \<Rightarrow> string" where
  "sample_normalize raw = ''feed of '' @ raw"

section \<open>Lemmas on the generator\<close>




















text \<open>
  The hash on the test vector of FIPS 180-4, and on a one-byte file and its base64 text.
\<close>

lemma checksum_abc:
  "checksum ''abc'' = ''ba7816bf8f01cfea414140de5dae2223b00361a396177a9cb410ff61f20015ad''"
  by code_simp




section \<open>Lemmas on the flattener\<close>












section \<open>The claims\<close>

text \<open>
  C1. \<open>rss.Parse\<close> returns exactly one of its two results non-nil: when the decoder
  fails, a nil feed and a LocalizedError; when it succeeds, the feed that \<open>Transform\<close> makes
  of the value \<open>new\<close> allocated, and a nil error. \<open>opml.Parse\<close> returns the nil list and a
  LocalizedError, or the transformed list and a nil error.
\<close>

theorem Parse_one_result:
  "(case Decode \<lparr>input = data, Strict = True, Entity = HTMLEntity, CharsetReader = Some cr\<rparr> of
      Inl err \<Rightarrow>
        rss_Parse Decode HTMLEntity cr (\<lambda>feed. rss_Transform convert (Some feed)) data
          = (None, Some \<lparr>message = ''Unable to parse RSS feed: %q'', cause = err\<rparr>)
    | Inr raw \<Rightarrow>
        rss_Parse Decode HTMLEntity cr (\<lambda>feed. rss_Transform convert (Some feed)) data
          = (Some (convert raw), None))
   \<and> ((fst (rss_Parse Decode HTMLEntity cr (\<lambda>feed. rss_Transform convert (Some feed)) data)
          = None)
        = (snd (rss_Parse Decode HTMLEntity cr (\<lambda>feed. rss_Transform convert (Some feed)) data)
          \<noteq> None))
   \<and> (case DecodeO \<lparr>input = dataO, Strict = True, Entity = HTMLEntity, CharsetReader = Some crO\<rparr> of
        Inl err \<Rightarrow>
          opml_Parse DecodeO HTMLEntity crO TransformO dataO
            = ([], Some \<lparr>message = ''Unable to parse OPML file: %q'', cause = err\<rparr>)
      | Inr raw \<Rightarrow> opml_Parse DecodeO HTMLEntity crO TransformO dataO = (TransformO raw, None))"
proof (intro conjI)
  let ?d = "\<lparr>input = data, Strict = True, Entity = HTMLEntity, CharsetReader = Some cr\<rparr>"
  let ?r = "rss_Parse Decode HTMLEntity cr (\<lambda>feed. rss_Transform convert (Some feed)) data"
  show "case Decode ?d of
          Inl err \<Rightarrow> ?r = (None, Some \<lparr>message = ''Unable to parse RSS feed: %q'', cause = err\<rparr>)
        | Inr raw \<Rightarrow> ?r = (Some (convert raw), None)"
    by (cases "Decode ?d")
      (simp_all add: rss_Parse_def NewDecoder_def NewLocalizedError_def rss_Transform_def)
  show "(fst ?r = None) = (snd ?r \<noteq> None)"
    by (cases "Decode ?d")
      (simp_all add: rss_Parse_def NewDecoder_def NewLocalizedError_def rss_Transform_def)
next
  let ?d = "\<lparr>input = dataO, Strict = True, Entity = HTMLEntity, CharsetReader = Some crO\<rparr>"
  show "case DecodeO ?d of
          Inl err \<Rightarrow>
            opml_Parse DecodeO HTMLEntity crO TransformO dataO
              = ([], Some \<lparr>message = ''Unable to parse OPML file: %q'', cause = err\<rparr>)
        | Inr raw \<Rightarrow> opml_Parse DecodeO HTMLEntity crO TransformO dataO = (TransformO raw, None)"
    by (cases "DecodeO ?d") (simp_all add: opml_Parse_def NewDecoder_def NewLocalizedError_def)
qed

theorem Parse_one_result_witness:
  "rss_Parse sample_Decode sample_entities sample_reader
       (\<lambda>feed. rss_Transform sample_normalize (Some feed)) ''<rss/>''
     = (Some ''feed of <rss/>'', None)
   \<and> rss_Parse sample_Decode sample_entities sample_reader
       (\<lambda>feed. rss_Transform sample_normalize (Some feed)) []
     = (None, Some \<lparr>message = ''Unable to parse RSS feed: %q'', cause = ''EOF''\<rparr>)
   \<and> opml_Parse sample_opml_Decode sample_entities sample_reader id []
     = ([], Some \<lparr>message = ''Unable to parse OPML file: %q'', cause = ''EOF''\<rparr>)
   \<and> opml_Parse sample_opml_Decode sample_entities sample_reader id ''<opml/>''
     = ([''<opml/>''], None)"
  using Parse_one_result [where Decode = sample_Decode and convert = sample_normalize
      and data = "''<rss/>''" and HTMLEntity = sample_entities and cr = sample_reader
      and DecodeO = sample_opml_Decode and dataO = "[]" and crO = sample_reader
      and TransformO = id]
    Parse_one_result [where Decode = sample_Decode and convert = sample_normalize
      and data = "[]" and HTMLEntity = sample_entities and cr = sample_reader
      and DecodeO = sample_opml_Decode and dataO = "''<opml/>''" and crO = sample_reader
      and TransformO = id]
  by (simp add: sample_Decode_def sample_opml_Decode_def sample_normalize_def)

text \<open>
  C4. When the decoder succeeds, both \<open>Parse\<close> functions return what \<open>Transform\<close> returns
  for the decoded value, with a nil error; nothing in the decoded value leads to an
  error result.
\<close>

theorem Parse_success:
  "(Decode \<lparr>input = data, Strict = True, Entity = HTMLEntity, CharsetReader = Some cr\<rparr> = Inr feed
      \<longrightarrow> rss_Parse Decode HTMLEntity cr Transform data = (Transform feed, None))
   \<and> (DecodeO \<lparr>input = dataO, Strict = True, Entity = HTMLEntity, CharsetReader = Some crO\<rparr>
        = Inr feeds
      \<longrightarrow> opml_Parse DecodeO HTMLEntity crO TransformO dataO = (TransformO feeds, None))"
proof (intro conjI impI)
  assume "Decode \<lparr>input = data, Strict = True, Entity = HTMLEntity, CharsetReader = Some cr\<rparr>
      = Inr feed"
  then show "rss_Parse Decode HTMLEntity cr Transform data = (Transform feed, None)"
    by (simp add: rss_Parse_def NewDecoder_def)
next
  assume "DecodeO \<lparr>input = dataO, Strict = True, Entity = HTMLEntity, CharsetReader = Some crO\<rparr>
      = Inr feeds"
  then show "opml_Parse DecodeO HTMLEntity crO TransformO dataO = (TransformO feeds, None)"
    by (simp add: opml_Parse_def NewDecoder_def)
qed

theorem Parse_success_witness:
  "rss_Parse sample_Decode sample_entities sample_reader Some ''<rss/>'' = (Some ''<rss/>'', None)
   \<and> opml_Parse sample_opml_Decode sample_entities sample_reader rev ''<opml/>''
       = (rev [''<opml/>''], None)"
  using Parse_success [where Decode = sample_Decode and data = "''<rss/>''"
      and HTMLEntity = sample_entities and cr = sample_reader and feed = "''<rss/>''"
      and Transform = Some and DecodeO = sample_opml_Decode and dataO = "''<opml/>''"
      and crO = sample_reader and feeds = "[''<opml/>'']" and TransformO = rev]
  by (simp add: sample_Decode_def sample_opml_Decode_def)

text \<open>
  C5. When the decoder fails, the error that \<open>Parse\<close> returns is a LocalizedError holding
  the message key of the format and, as its cause, the very error the decoder returned.
\<close>

theorem Parse_failure:
  "(Decode \<lparr>input = data, Strict = True, Entity = HTMLEntity, CharsetReader = Some cr\<rparr> = Inl err
      \<longrightarrow> rss_Parse Decode HTMLEntity cr Transform data
          = (None, Some \<lparr>message = ''Unable to parse RSS feed: %q'', cause = err\<rparr>))
   \<and> (DecodeO \<lparr>input = dataO, Strict = True, Entity = HTMLEntity, CharsetReader = Some crO\<rparr>
        = Inl errO
      \<longrightarrow> opml_Parse DecodeO HTMLEntity crO TransformO dataO
          = ([], Some \<lparr>message = ''Unable to parse OPML file: %q'', cause = errO\<rparr>))"
proof (intro conjI impI)
  assume "Decode \<lparr>input = data, Strict = True, Entity = HTMLEntity, CharsetReader = Some cr\<rparr>
      = Inl err"
  then show "rss_Parse Decode HTMLEntity cr Transform data
      = (None, Some \<lparr>message = ''Unable to parse RSS feed: %q'', cause = err\<rparr>)"
    by (simp add: rss_Parse_def NewDecoder_def NewLocalizedError_def)
next
  assume "DecodeO \<lparr>input = dataO, Strict = True, Entity = HTMLEntity, CharsetReader = Some crO\<rparr>
      = Inl errO"
  then show "opml_Parse DecodeO HTMLEntity crO TransformO dataO
      = ([], Some \<lparr>message = ''Unable to parse OPML file: %q'', cause = errO\<rparr>)"
    by (simp add: opml_Parse_def NewDecoder_def NewLocalizedError_def)
qed

theorem Parse_failure_witness:
  "rss_Parse sample_Decode sample_entities sample_reader Some []
     = (None, Some \<lparr>message = ''Unable to parse RSS feed: %q'', cause = ''EOF''\<rparr>)
   \<and> opml_Parse sample_opml_Decode sample_entities sample_reader id []
     = ([], Some \<lparr>message = ''Unable to parse OPML file: %q'', cause = ''EOF''\<rparr>)"
  using Parse_failure [where Decode = sample_Decode and data = "[]"
      and HTMLEntity = sample_entities and cr = sample_reader and err = "''EOF''"
      and Transform = Some and DecodeO = sample_opml_Decode and dataO = "[]"
      and crO = sample_reader and errO = "''EOF''" and TransformO = id]
  by (simp add: sample_Decode_def sample_opml_Decode_def)







end
